theory Spec2Isabelle
  imports Complex_Main
begin

section \<open>Sequential minimal optimisation for support vector machines\<close>

text \<open>
  A shallow embedding of the two SMO engines of \<^verbatim>\<open>src/ml/svm.py\<close>:
  \<^verbatim>\<open>SVC.SMOClassifier\<close> (Platt, with the two thresholds of Keerthi et al.) and
  \<^verbatim>\<open>SVR.SMORegression\<close> (Smola and Schoelkopf, with the thresholds of
  Shevade et al.).

  Conventions of the embedding.
  \<^item> Python floats are the type \<^typ>\<open>real\<close>: arithmetic is exact, there is no rounding,
    no overflow and no NaN.
  \<^item> numpy vectors are lists; the kernel matrix is a list of rows.
  \<^item> The attributes of \<^verbatim>\<open>self\<close> that the engine only reads (\<^verbatim>\<open>X\<close>, \<^verbatim>\<open>y\<close>,
    \<^verbatim>\<open>K\<close>, \<^verbatim>\<open>kernel\<close>, \<^verbatim>\<open>C\<close>, \<^verbatim>\<open>tol\<close>, \<^verbatim>\<open>epsilon\<close>) are the record
    \<open>params\<close>; the attributes it writes are the state record, passed in and returned.
    The attributes \<^verbatim>\<open>f\<close> and \<^verbatim>\<open>verbose\<close> only feed \<^verbatim>\<open>print\<close> and are left out.
  \<^item> Sample indices are natural numbers. The threshold indices \<^verbatim>\<open>b_up_idx\<close> and
    \<^verbatim>\<open>b_low_idx\<close> are integers, because the source stores the sentinel \<open>-1\<close> in them.
  \<^item> A raised exception is the left summand of the result.
  \<^item> \<^verbatim>\<open>for i in self.I0\<close> visits the members of the set in increasing order.
\<close>

subsection \<open>Data\<close>

text \<open>
  The exceptions the engines can raise: \<^verbatim>\<open>StopIteration\<close> out of \<^verbatim>\<open>next\<close>,
  \<^verbatim>\<open>IndexError\<close> out of a subscript, \<^verbatim>\<open>Exception('unexpected status')\<close> and
  \<^verbatim>\<open>Exception('the index could not be found')\<close>. \<open>NegativeIndex\<close> is not a Python
  exception: it marks the one place where the embedding stops short of the source, a call
  of \<^verbatim>\<open>_take_step\<close> with a negative first index, which Python would read from the
  end of the arrays. The only negative index the engines ever store is the sentinel
  \<open>-1\<close>, and \<^verbatim>\<open>_take_step\<close> raises rather than return with it.
\<close>

datatype error = StopIteration | IndexError | UnexpectedStatus | IndexNotFound | NegativeIndex

text \<open>
  \<^verbatim>\<open>self.w\<close> starts as the float \<^verbatim>\<open>0.\<close> and becomes a vector at the first
  \<^verbatim>\<open>self.w += ...\<close> by numpy broadcasting.
\<close>

datatype weight = Scalar real | Vector "real list"

record params =
  smo_X :: "real list list"
  smo_y :: "real list"
  smo_K :: "real list list"
  smo_kernel :: string
  smo_C :: real
  smo_tol :: real

record svr_params = params +
  epsilon :: real

record smo_state =
  errors :: "real list"
  smo_w :: "weight option"
  smo_b :: real
  I0 :: "nat set"
  I1 :: "nat set"
  I2 :: "nat set"
  I3 :: "nat set"
  b_up :: real
  b_low :: real
  b_up_idx :: int
  b_low_idx :: int

record svc_state = smo_state +
  alphas :: "real list"
  I4 :: "nat set"

record svr_state = smo_state +
  alphas_p :: "real list"
  alphas_n :: "real list"

subsection \<open>Helpers\<close>

text \<open>
  Modelled from the spec: \<^verbatim>\<open>utils.clip\<close> is imported by \<^verbatim>\<open>svm.py\<close> but its
  module is not among the sources. The spec says the closed-form value is clipped
  into \<open>[L, H]\<close>.
\<close>

definition clip :: "real \<Rightarrow> real \<Rightarrow> real \<Rightarrow> real" where
  "clip x l h = max l (min x h)"

text \<open>\<^verbatim>\<open>sys.float_info.max\<close>, the largest finite double.\<close>

definition float_info_max :: real where
  "float_info_max = (2 ^ 53 - 1) * 2 ^ 971"

definition elems :: "nat \<Rightarrow> nat set \<Rightarrow> nat list" where
  "elems n A = filter (\<lambda>i. i \<in> A) [0..<n]"

definition dot :: "real list \<Rightarrow> real list \<Rightarrow> real" where
  "dot u v = sum_list (map2 (*) u v)"

definition scale :: "real \<Rightarrow> real list \<Rightarrow> real list" where
  "scale c v = map (\<lambda>x. c * x) v"

definition vadd :: "real list \<Rightarrow> real list \<Rightarrow> real list" where
  "vadd u v = map2 (+) u v"

fun weight_add :: "weight \<Rightarrow> real list \<Rightarrow> weight" where
  "weight_add (Scalar c) v = Vector (map (\<lambda>x. c + x) v)"
| "weight_add (Vector u) v = Vector (vadd u v)"

fun weight_sub :: "weight \<Rightarrow> real list \<Rightarrow> weight" where
  "weight_sub (Scalar c) v = Vector (map (\<lambda>x. c - x) v)"
| "weight_sub (Vector u) v = Vector (map2 (-) u v)"

definition kern :: "'a params_scheme \<Rightarrow> nat \<Rightarrow> nat \<Rightarrow> real" where
  "kern P i j = smo_K P ! i ! j"

subsection \<open>Classification: construction\<close>

text \<open>
  \<^verbatim>\<open>SMOClassifier.__init__\<close>. \<^verbatim>\<open>next(i for i in range(len(X)) if y[i] == 1)\<close> raises
  \<^verbatim>\<open>StopIteration\<close> when no index qualifies; reading \<^verbatim>\<open>y[i]\<close> past the end of a
  shorter \<^verbatim>\<open>y\<close> raises \<^verbatim>\<open>IndexError\<close>, already while \<^verbatim>\<open>I1\<close> is built.
\<close>

definition svc_init :: "params \<Rightarrow> error + svc_state" where
  "svc_init P =
    (let n = length (smo_X P); ys = smo_y P in
     if length ys < n then Inl IndexError
     else
       case List.find (\<lambda>i. ys ! i = 1) [0..<n] of
         None \<Rightarrow> Inl StopIteration
       | Some u \<Rightarrow>
          (case List.find (\<lambda>i. ys ! i = - 1) [0..<n] of
             None \<Rightarrow> Inl StopIteration
           | Some l \<Rightarrow>
              Inr \<lparr> errors = ((replicate n 0)[u := - 1])[l := 1],
                    smo_w = (if smo_kernel P = ''linear'' then Some (Scalar 0) else None),
                    smo_b = 0,
                    I0 = {},
                    I1 = set (filter (\<lambda>i. ys ! i = 1) [0..<n]),
                    I2 = {},
                    I3 = {},
                    b_up = - 1,
                    b_low = 1,
                    b_up_idx = int u,
                    b_low_idx = int l,
                    alphas = replicate n 0,
                    I4 = set (filter (\<lambda>i. ys ! i = - 1) [0..<n]) \<rparr>))"

subsection \<open>Classification: the pair update\<close>

text \<open>The bounds \<open>L\<close> and \<open>H\<close> on the new \<open>alpha2\<close> (Platt, equations 13 and 14).\<close>

definition svc_bounds :: "real \<Rightarrow> real \<Rightarrow> real \<Rightarrow> real \<Rightarrow> real \<Rightarrow> real \<times> real" where
  "svc_bounds Cv y1 y2 alpha1 alpha2 =
    (if y1 \<noteq> y2
     then (max 0 (alpha2 - alpha1), min Cv (Cv + alpha2 - alpha1))
     else (max 0 (alpha2 + alpha1 - Cv), min Cv (alpha2 + alpha1)))"

text \<open>The new \<open>alpha2\<close>, before the negligible-change test and before snapping.\<close>

definition svc_new_alpha2 ::
  "real \<Rightarrow> real \<Rightarrow> real \<Rightarrow> real \<Rightarrow> real \<Rightarrow> real \<Rightarrow> real \<Rightarrow> real" where
  "svc_new_alpha2 eta y2 E1 E2 alpha2 L H =
    (if eta > 0 then clip (alpha2 + y2 * (E1 - E2) / eta) L H
     else
       let Lobj = y2 * (E1 - E2) * L;
           Hobj = y2 * (E1 - E2) * H
       in if Lobj > Hobj + 1 / 10 ^ 12 then L
          else if Lobj < Hobj - 1 / 10 ^ 12 then H
          else alpha2)"

text \<open>\<^verbatim>\<open># to prevent precision problems\<close>: the snapping of one multiplier.\<close>

definition svc_snap :: "real \<Rightarrow> real \<Rightarrow> real" where
  "svc_snap Cv a =
    (if a > Cv - 1 / 10 ^ 8 * Cv then Cv
     else if a < 1 / 10 ^ 8 * Cv then 0
     else a)"

text \<open>
  The error cache: the members of \<open>I0\<close> other than the pair, then the pair. Both
  engines run this loop, with their own deltas \<open>d1\<close> and \<open>d2\<close>.
\<close>

definition update_errors ::
  "'a params_scheme \<Rightarrow> nat set \<Rightarrow> nat \<Rightarrow> nat \<Rightarrow> real \<Rightarrow> real \<Rightarrow> real list \<Rightarrow> real list" where
  "update_errors P I i1 i2 d1 d2 es =
    (let es1 = fold (\<lambda>i e. if i \<noteq> i1 \<and> i \<noteq> i2
                             then e[i := e ! i + (d1 * kern P i1 i + d2 * kern P i2 i)]
                             else e)
                    (elems (length es) I) es;
         es2 = es1[i1 := es1 ! i1 + (d1 * kern P i1 i1 + d2 * kern P i1 i2)]
     in es2[i2 := es2 ! i2 + (d1 * kern P i1 i2 + d2 * kern P i2 i2)])"

text \<open>The body of \<^verbatim>\<open>for i in (i1, i2)\<close> that recomputes the categories of one index.\<close>

definition svc_update_sets :: "params \<Rightarrow> nat \<Rightarrow> svc_state \<Rightarrow> svc_state" where
  "svc_update_sets P i s =
    (let a = alphas s ! i; yi = smo_y P ! i; Cv = smo_C P in
     s\<lparr> I0 := (if 0 < a \<and> a < Cv then insert i (I0 s) else I0 s - {i}),
        I1 := (if yi = 1 \<and> a = 0 then insert i (I1 s) else I1 s - {i}),
        I2 := (if yi = - 1 \<and> a = Cv then insert i (I2 s) else I2 s - {i}),
        I3 := (if yi = 1 \<and> a = Cv then insert i (I3 s) else I3 s - {i}),
        I4 := (if yi = - 1 \<and> a = 0 then insert i (I4 s) else I4 s - {i}) \<rparr>)"

text \<open>The threshold scan: the body of \<^verbatim>\<open>for i in self.I0\<close>.\<close>

definition svc_scan_free :: "nat \<Rightarrow> svc_state \<Rightarrow> svc_state" where
  "svc_scan_free i s =
    (let s1 = (if errors s ! i > b_low s
               then s\<lparr> b_low := errors s ! i, b_low_idx := int i \<rparr> else s)
     in if errors s1 ! i < b_up s1
        then s1\<lparr> b_up := errors s1 ! i, b_up_idx := int i \<rparr> else s1)"

text \<open>The threshold scan: the special case of \<open>i1\<close> or \<open>i2\<close> outside \<open>I0\<close>.\<close>

definition svc_scan_bound :: "nat \<Rightarrow> svc_state \<Rightarrow> svc_state" where
  "svc_scan_bound i s =
    (if i \<notin> I0 s then
       (if i \<in> I3 s \<or> i \<in> I4 s then
          (if errors s ! i > b_low s
           then s\<lparr> b_low := errors s ! i, b_low_idx := int i \<rparr> else s)
        else if errors s ! i < b_up s
        then s\<lparr> b_up := errors s ! i, b_up_idx := int i \<rparr>
        else s)
     else s)"

definition svc_update_thresholds :: "nat \<Rightarrow> nat \<Rightarrow> svc_state \<Rightarrow> svc_state" where
  "svc_update_thresholds i1 i2 s =
    (let s0 = s\<lparr> b_up_idx := - 1, b_low_idx := - 1,
                 b_up := float_info_max, b_low := - float_info_max \<rparr>;
         s1 = fold svc_scan_free (elems (length (errors s0)) (I0 s0)) s0
     in svc_scan_bound i2 (svc_scan_bound i1 s1))"

text \<open>
  Everything \<^verbatim>\<open>_take_step\<close> does once the change of \<open>alpha2\<close> is accepted: the
  paired \<open>alpha1\<close>, the weight vector, the error cache, the snapping, the multipliers,
  the categories and the thresholds.
\<close>

definition svc_commit ::
  "params \<Rightarrow> svc_state \<Rightarrow> nat \<Rightarrow> nat \<Rightarrow> real \<Rightarrow> error + (svc_state \<times> bool)" where
  "svc_commit P s i1 i2 a2 =
    (let alpha1 = alphas s ! i1; y1 = smo_y P ! i1;
         alpha2 = alphas s ! i2; y2 = smo_y P ! i2;
         a1 = alpha1 + (y1 * y2) * (alpha2 - a2);
         d1 = y1 * (a1 - alpha1);
         d2 = y2 * (a2 - alpha2);
         w' = (if smo_kernel P = ''linear''
               then map_option (\<lambda>w. weight_add w
                      (vadd (scale d1 (smo_X P ! i1)) (scale d2 (smo_X P ! i2)))) (smo_w s)
               else smo_w s);
         es = update_errors P (I0 s) i1 i2 d1 d2 (errors s);
         s1 = s\<lparr> smo_w := w', errors := es,
                 alphas := ((alphas s)[i1 := svc_snap (smo_C P) a1])
                                      [i2 := svc_snap (smo_C P) a2] \<rparr>;
         s2 = svc_update_sets P i2 (svc_update_sets P i1 s1);
         s3 = svc_update_thresholds i1 i2 s2
     in if b_low_idx s3 = - 1 \<or> b_up_idx s3 = - 1 then Inl UnexpectedStatus
        else Inr (s3, True))"

text \<open>
  \<^verbatim>\<open>SMOClassifier._take_step\<close>. The first subscript with an index past the end
  raises \<^verbatim>\<open>IndexError\<close>.
\<close>

definition svc_take_step ::
  "params \<Rightarrow> svc_state \<Rightarrow> nat \<Rightarrow> nat \<Rightarrow> error + (svc_state \<times> bool)" where
  "svc_take_step P s i1 i2 =
    (if i1 = i2 then Inr (s, False)
     else if \<not> (i1 < length (alphas s) \<and> i2 < length (alphas s)) then Inl IndexError
     else
       let alpha1 = alphas s ! i1; y1 = smo_y P ! i1; E1 = errors s ! i1;
           alpha2 = alphas s ! i2; y2 = smo_y P ! i2; E2 = errors s ! i2;
           (L, H) = svc_bounds (smo_C P) y1 y2 alpha1 alpha2
       in if L = H then Inr (s, False)
          else
            let eta = kern P i1 i1 + kern P i2 i2 - 2 * kern P i1 i2;
                a2 = svc_new_alpha2 eta y2 E1 E2 alpha2 L H
            in if \<bar>a2 - alpha2\<bar> < 1 / 10 ^ 12 * (a2 + alpha2 + 1 / 10 ^ 12)
               then Inr (s, False)
               else svc_commit P s i1 i2 a2)"

text \<open>
  The first part of \<^verbatim>\<open>SMOClassifier._examine_example\<close>: the error \<^verbatim>\<open>E2\<close> of the
  index, read from the cache for a member of \<open>I0\<close> and otherwise computed, stored and
  used to tighten a threshold.
\<close>

definition svc_refresh :: "params \<Rightarrow> svc_state \<Rightarrow> nat \<Rightarrow> svc_state \<times> real" where
  "svc_refresh P s i2 =
    (if i2 \<in> I0 s then (s, errors s ! i2)
     else
       let E2 = dot (map2 (*) (alphas s) (smo_y P)) (smo_K P ! i2) - smo_y P ! i2;
           s0 = s\<lparr> errors := (errors s)[i2 := E2] \<rparr>
       in ((if (i2 \<in> I1 s0 \<or> i2 \<in> I2 s0) \<and> E2 < b_up s0
            then s0\<lparr> b_up := E2, b_up_idx := int i2 \<rparr>
            else if (i2 \<in> I3 s0 \<or> i2 \<in> I4 s0) \<and> E2 > b_low s0
            then s0\<lparr> b_low := E2, b_low_idx := int i2 \<rparr>
            else s0), E2))"

text \<open>
  The optimality test: the values of \<^verbatim>\<open>optimal\<close> and \<^verbatim>\<open>i1\<close> after the two
  \<^verbatim>\<open>if\<close> statements and, for a violating member of \<open>I0\<close>, after the choice of the
  better \<^verbatim>\<open>i1\<close>.
\<close>

definition svc_choose :: "params \<Rightarrow> svc_state \<Rightarrow> nat \<Rightarrow> real \<Rightarrow> bool \<times> int" where
  "svc_choose P s i2 E2 =
    (let (optimal, i1) =
           (if (i2 \<in> I0 s \<or> i2 \<in> I1 s \<or> i2 \<in> I2 s) \<and> b_low s - E2 > 2 * smo_tol P
            then (False, b_low_idx s) else (True, - 1));
         (optimal, i1) =
           (if (i2 \<in> I0 s \<or> i2 \<in> I3 s \<or> i2 \<in> I4 s) \<and> E2 - b_up s > 2 * smo_tol P
            then (False, b_up_idx s) else (optimal, i1))
     in if optimal then (True, i1)
        else if i2 \<in> I0 s
        then (False, if b_low s - E2 > E2 - b_up s then b_low_idx s else b_up_idx s)
        else (False, i1))"

text \<open>
  \<^verbatim>\<open>SMOClassifier._examine_example\<close>. A threshold index is \<open>int i\<close> for a sample
  index \<open>i\<close>, or the sentinel \<open>-1\<close>, which the source traps before the call of
  \<^verbatim>\<open>_take_step\<close>.
\<close>

definition svc_examine_example ::
  "params \<Rightarrow> svc_state \<Rightarrow> nat \<Rightarrow> error + (svc_state \<times> bool)" where
  "svc_examine_example P s i2 =
    (if \<not> i2 < length (alphas s) then Inl IndexError
     else
       let (s1, E2) = svc_refresh P s i2;
           (optimal, i1) = svc_choose P s1 i2 E2
       in if optimal then Inr (s1, False)
          else if i1 = - 1 then Inl IndexNotFound
          else if i1 < 0 then Inl NegativeIndex
          else svc_take_step P s1 (nat i1) i2)"

subsection \<open>Classification: the outer driver\<close>

text \<open>The full sweep: \<^verbatim>\<open>num_changed += self._examine_example(i)\<close> for every index.\<close>

fun svc_sweep_all :: "params \<Rightarrow> nat list \<Rightarrow> svc_state \<Rightarrow> nat \<Rightarrow> error + (svc_state \<times> nat)" where
  "svc_sweep_all P [] s num_changed = Inr (s, num_changed)"
| "svc_sweep_all P (i # is) s num_changed =
    (case svc_examine_example P s i of
       Inl e \<Rightarrow> Inl e
     | Inr (s', ch) \<Rightarrow> svc_sweep_all P is s' (num_changed + (if ch then 1 else 0)))"

text \<open>
  The sweep over the multipliers strictly inside the box, with its early exit
  (\<^verbatim>\<open>num_changed = 0; break\<close>) once the thresholds have met.
\<close>

fun svc_sweep_active :: "params \<Rightarrow> nat list \<Rightarrow> svc_state \<Rightarrow> nat \<Rightarrow> error + (svc_state \<times> nat)" where
  "svc_sweep_active P [] s num_changed = Inr (s, num_changed)"
| "svc_sweep_active P (i # is) s num_changed =
    (if 0 < alphas s ! i \<and> alphas s ! i < smo_C P then
       (case svc_examine_example P s i of
          Inl e \<Rightarrow> Inl e
        | Inr (s', ch) \<Rightarrow>
            if b_up s' > b_low s' - 2 * smo_tol P then Inr (s', 0)
            else svc_sweep_active P is s' (num_changed + (if ch then 1 else 0)))
     else svc_sweep_active P is s num_changed)"

text \<open>
  One turn of \<^verbatim>\<open>while num_changed > 0 or examine_all\<close>: the sweep, then the update of
  \<^verbatim>\<open>examine_all\<close>. The result is the state, \<^verbatim>\<open>num_changed\<close> and \<^verbatim>\<open>examine_all\<close>
  at the end of the turn.
\<close>

definition svc_smo_body ::
  "params \<Rightarrow> svc_state \<Rightarrow> bool \<Rightarrow> error + (svc_state \<times> nat \<times> bool)" where
  "svc_smo_body P s examine_all =
    (case (if examine_all then svc_sweep_all P [0..<length (smo_X P)] s 0
           else svc_sweep_active P [0..<length (smo_X P)] s 0) of
       Inl e \<Rightarrow> Inl e
     | Inr (s', num_changed) \<Rightarrow>
         Inr (s', num_changed,
              (if examine_all then False
               else if num_changed = 0 then True
               else examine_all)))"

text \<open>The loop may run forever: not returning is the value \<open>None\<close>.\<close>

partial_function (option) svc_smo_loop ::
  "params \<Rightarrow> svc_state \<Rightarrow> nat \<Rightarrow> bool \<Rightarrow> (error + svc_state) option" where
  "svc_smo_loop P s num_changed examine_all =
    (if num_changed > 0 \<or> examine_all then
       (case svc_smo_body P s examine_all of
          Inl e \<Rightarrow> Some (Inl e)
        | Inr (s', num_changed', examine_all') \<Rightarrow> svc_smo_loop P s' num_changed' examine_all')
     else Some (Inr s))"

declare svc_smo_loop.simps [code]

text \<open>\<^verbatim>\<open>SMOClassifier.smo\<close>: the loop from \<^verbatim>\<open>num_changed = 0\<close>, \<^verbatim>\<open>examine_all = True\<close>, then the bias.\<close>

definition svc_smo :: "params \<Rightarrow> svc_state \<Rightarrow> (error + svc_state) option" where
  "svc_smo P s =
    (case svc_smo_loop P s 0 True of
       None \<Rightarrow> None
     | Some (Inl e) \<Rightarrow> Some (Inl e)
     | Some (Inr s') \<Rightarrow> Some (Inr (s'\<lparr> smo_b := - (b_low s' + b_up s') / 2 \<rparr>)))"

text \<open>Construction followed by training, as \<^verbatim>\<open>SVC.fit\<close> calls them.\<close>

definition svc_train :: "params \<Rightarrow> (error + svc_state) option" where
  "svc_train P = (case svc_init P of Inl e \<Rightarrow> Some (Inl e) | Inr s \<Rightarrow> svc_smo P s)"

subsection \<open>Regression: construction\<close>

text \<open>\<^verbatim>\<open>SMORegression.__init__\<close>; \<^verbatim>\<open>y[0]\<close> raises \<^verbatim>\<open>IndexError\<close> on an empty \<^verbatim>\<open>y\<close>.\<close>

definition svr_init :: "svr_params \<Rightarrow> error + svr_state" where
  "svr_init P =
    (let n = length (smo_X P); ys = smo_y P in
     if ys = [] then Inl IndexError
     else
       Inr \<lparr> errors = replicate n 0,
             smo_w = (if smo_kernel P = ''linear'' then Some (Scalar 0) else None),
             smo_b = 0,
             I0 = {},
             I1 = set [0..<n],
             I2 = {},
             I3 = {},
             b_up = ys ! 0 + epsilon P,
             b_low = ys ! 0 - epsilon P,
             b_up_idx = 0,
             b_low_idx = 0,
             alphas_p = replicate n 0,
             alphas_n = replicate n 0 \<rparr>)"

subsection \<open>Regression: the pair update\<close>

text \<open>The local variables of \<^verbatim>\<open>SMORegression._take_step\<close> that its \<^verbatim>\<open>while\<close> loop writes.\<close>

record svr_locals =
  alpha1_p :: real
  alpha1_n :: real
  alpha2_p :: real
  alpha2_n :: real
  delta_E :: real
  case1 :: bool
  case2 :: bool
  case3 :: bool
  case4 :: bool
  changed :: bool
  finished :: bool

text \<open>
  The four branches of the \<^verbatim>\<open>if\<close>/\<^verbatim>\<open>elif\<close> chain inside \<^verbatim>\<open>while not finished\<close>:
  for each, its guard without the \<^verbatim>\<open>not caseN\<close> conjunct, and its body.
\<close>

definition svr_guard1 :: "svr_locals \<Rightarrow> bool" where
  "svr_guard1 l \<longleftrightarrow>
     (alpha1_p l > 0 \<or> (alpha1_n l = 0 \<and> delta_E l > 0)) \<and>
     (alpha2_p l > 0 \<or> (alpha2_n l = 0 \<and> delta_E l < 0))"

definition svr_branch1 :: "real \<Rightarrow> real \<Rightarrow> real \<Rightarrow> svr_locals \<Rightarrow> svr_locals" where
  "svr_branch1 Cv eta gamma l =
    (let L = max 0 (gamma - Cv); H = min Cv gamma in
     (if L < H then
        (let a2 = (if eta > 0 then clip (alpha2_p l - delta_E l / eta) L H
                   else let Lobj = - L * delta_E l; Hobj = - H * delta_E l
                        in if Lobj > Hobj then L else H);
             a1 = alpha1_p l - (a2 - alpha2_p l)
         in if \<bar>a1 - alpha1_p l\<bar> > 1 / 10 ^ 12 \<or> \<bar>a2 - alpha2_p l\<bar> > 1 / 10 ^ 12
            then l\<lparr> alpha1_p := a1, alpha2_p := a2, changed := True \<rparr>
            else l)
      else l\<lparr> finished := True \<rparr>)\<lparr> case1 := True \<rparr>)"

definition svr_guard2 :: "real \<Rightarrow> svr_locals \<Rightarrow> bool" where
  "svr_guard2 eps l \<longleftrightarrow>
     (alpha1_p l > 0 \<or> (alpha1_n l = 0 \<and> delta_E l > 2 * eps)) \<and>
     (alpha2_n l > 0 \<or> (alpha2_p l = 0 \<and> delta_E l > 2 * eps))"

definition svr_branch2 :: "real \<Rightarrow> real \<Rightarrow> real \<Rightarrow> real \<Rightarrow> svr_locals \<Rightarrow> svr_locals" where
  "svr_branch2 Cv eps eta gamma l =
    (let L = max 0 (- gamma); H = min Cv (- gamma + Cv) in
     (if L < H then
        (let a2 = (if eta > 0 then clip (alpha2_n l + (delta_E l - 2 * eps) / eta) L H
                   else let Lobj = L * (- 2 * eps + delta_E l);
                            Hobj = H * (- 2 * eps + delta_E l)
                        in if Lobj > Hobj then L else H);
             a1 = alpha1_p l + (a2 - alpha2_n l)
         in if \<bar>a1 - alpha1_p l\<bar> > 1 / 10 ^ 12 \<or> \<bar>a2 - alpha2_n l\<bar> > 1 / 10 ^ 12
            then l\<lparr> alpha1_p := a1, alpha2_n := a2, changed := True \<rparr>
            else l)
      else l\<lparr> finished := True \<rparr>)\<lparr> case2 := True \<rparr>)"

definition svr_guard3 :: "real \<Rightarrow> svr_locals \<Rightarrow> bool" where
  "svr_guard3 eps l \<longleftrightarrow>
     (alpha1_n l > 0 \<or> (alpha1_p l = 0 \<and> delta_E l < - 2 * eps)) \<and>
     (alpha2_p l > 0 \<or> (alpha2_n l = 0 \<and> delta_E l < - 2 * eps))"

definition svr_branch3 :: "real \<Rightarrow> real \<Rightarrow> real \<Rightarrow> real \<Rightarrow> svr_locals \<Rightarrow> svr_locals" where
  "svr_branch3 Cv eps eta gamma l =
    (let L = max 0 gamma; H = min Cv (Cv + gamma) in
     (if L < H then
        (let a2 = (if eta > 0 then clip (alpha2_p l - (delta_E l + 2 * eps) / eta) L H
                   else let Lobj = - L * (2 * eps + delta_E l);
                            Hobj = - H * (2 * eps + delta_E l)
                        in if Lobj > Hobj then L else H);
             a1 = alpha1_n l + (a2 - alpha2_p l)
         in if \<bar>a1 - alpha1_n l\<bar> > 1 / 10 ^ 12 \<or> \<bar>a2 - alpha2_p l\<bar> > 1 / 10 ^ 12
            then l\<lparr> alpha1_n := a1, alpha2_p := a2, changed := True \<rparr>
            else l)
      else l\<lparr> finished := True \<rparr>)\<lparr> case3 := True \<rparr>)"

definition svr_guard4 :: "svr_locals \<Rightarrow> bool" where
  "svr_guard4 l \<longleftrightarrow>
     (alpha1_n l > 0 \<or> (alpha1_p l = 0 \<and> delta_E l < 0)) \<and>
     (alpha2_n l > 0 \<or> (alpha2_p l = 0 \<and> delta_E l > 0))"

definition svr_branch4 :: "real \<Rightarrow> real \<Rightarrow> real \<Rightarrow> svr_locals \<Rightarrow> svr_locals" where
  "svr_branch4 Cv eta gamma l =
    (let L = max 0 (- gamma - Cv); H = min Cv (- gamma) in
     (if L < H then
        (let a2 = (if eta > 0 then clip (alpha2_n l + delta_E l / eta) L H
                   else let Lobj = L * delta_E l; Hobj = H * delta_E l
                        in if Lobj > Hobj then L else H);
             a1 = alpha1_n l - (a2 - alpha2_n l)
         in if \<bar>a1 - alpha1_n l\<bar> > 1 / 10 ^ 12 \<or> \<bar>a2 - alpha2_n l\<bar> > 1 / 10 ^ 12
            then l\<lparr> alpha1_n := a1, alpha2_n := a2, changed := True \<rparr>
            else l)
      else l\<lparr> finished := True \<rparr>)\<lparr> case4 := True \<rparr>)"

text \<open>The \<^verbatim>\<open>if\<close>/\<^verbatim>\<open>elif\<close> chain: the first case not yet tried whose guard holds.\<close>

definition svr_dispatch :: "real \<Rightarrow> real \<Rightarrow> real \<Rightarrow> real \<Rightarrow> svr_locals \<Rightarrow> svr_locals" where
  "svr_dispatch Cv eps eta gamma l =
    (if \<not> case1 l \<and> svr_guard1 l then svr_branch1 Cv eta gamma l
     else if \<not> case2 l \<and> svr_guard2 eps l then svr_branch2 Cv eps eta gamma l
     else if \<not> case3 l \<and> svr_guard3 eps l then svr_branch3 Cv eps eta gamma l
     else if \<not> case4 l \<and> svr_guard4 l then svr_branch4 Cv eta gamma l
     else l\<lparr> finished := True \<rparr>)"

text \<open>
  One turn of \<^verbatim>\<open>while not finished\<close>: the chain, then the shift of \<^verbatim>\<open>delta_E\<close>.
  \<open>beta2\<close> is \<^verbatim>\<open>self.alphas_p[i2] - self.alphas_n[i2]\<close>, which the loop does not
  change.
\<close>

definition svr_loop_body ::
  "real \<Rightarrow> real \<Rightarrow> real \<Rightarrow> real \<Rightarrow> real \<Rightarrow> svr_locals \<Rightarrow> svr_locals" where
  "svr_loop_body Cv eps eta gamma beta2 l =
    (let l' = svr_dispatch Cv eps eta gamma l
     in l'\<lparr> delta_E := delta_E l' + eta * ((alpha2_p l' - alpha2_n l') - beta2) \<rparr>)"

text \<open>The number of turns the loop can still make: one per case not yet tried, and the last.\<close>

definition svr_loop_measure :: "svr_locals \<Rightarrow> nat" where
  "svr_loop_measure l =
    (if finished l then 0
     else 1 + (if case1 l then 0 else 1) + (if case2 l then 0 else 1)
            + (if case3 l then 0 else 1) + (if case4 l then 0 else 1))"

lemma svr_branch1_flags:
  "case1 (svr_branch1 Cv eta gamma l) \<and> case2 (svr_branch1 Cv eta gamma l) = case2 l \<and>
   case3 (svr_branch1 Cv eta gamma l) = case3 l \<and> case4 (svr_branch1 Cv eta gamma l) = case4 l"
  by (simp add: svr_branch1_def Let_def)

lemma svr_branch2_flags:
  "case2 (svr_branch2 Cv eps eta gamma l) \<and> case1 (svr_branch2 Cv eps eta gamma l) = case1 l \<and>
   case3 (svr_branch2 Cv eps eta gamma l) = case3 l \<and> case4 (svr_branch2 Cv eps eta gamma l) = case4 l"
  by (simp add: svr_branch2_def Let_def)

lemma svr_branch3_flags:
  "case3 (svr_branch3 Cv eps eta gamma l) \<and> case1 (svr_branch3 Cv eps eta gamma l) = case1 l \<and>
   case2 (svr_branch3 Cv eps eta gamma l) = case2 l \<and> case4 (svr_branch3 Cv eps eta gamma l) = case4 l"
  by (simp add: svr_branch3_def Let_def)

lemma svr_branch4_flags:
  "case4 (svr_branch4 Cv eta gamma l) \<and> case1 (svr_branch4 Cv eta gamma l) = case1 l \<and>
   case2 (svr_branch4 Cv eta gamma l) = case2 l \<and> case3 (svr_branch4 Cv eta gamma l) = case3 l"
  by (simp add: svr_branch4_def Let_def)

lemma svr_loop_measure_shift [simp]:
  "svr_loop_measure (l\<lparr> delta_E := d \<rparr>) = svr_loop_measure l"
  by (simp add: svr_loop_measure_def)

lemma svr_dispatch_decreases:
  assumes "\<not> finished l"
  shows "svr_loop_measure (svr_dispatch Cv eps eta gamma l) < svr_loop_measure l"
proof -
  have m: "svr_loop_measure l' < svr_loop_measure l"
    if "(\<not> case1 l \<and> case1 l' \<and> case2 l' = case2 l \<and> case3 l' = case3 l \<and> case4 l' = case4 l)
      \<or> (\<not> case2 l \<and> case2 l' \<and> case1 l' = case1 l \<and> case3 l' = case3 l \<and> case4 l' = case4 l)
      \<or> (\<not> case3 l \<and> case3 l' \<and> case1 l' = case1 l \<and> case2 l' = case2 l \<and> case4 l' = case4 l)
      \<or> (\<not> case4 l \<and> case4 l' \<and> case1 l' = case1 l \<and> case2 l' = case2 l \<and> case3 l' = case3 l)
      \<or> finished l'" for l'
    using that assms unfolding svr_loop_measure_def by auto
  consider (a) "\<not> case1 l \<and> svr_guard1 l"
    | (b) "\<not> (\<not> case1 l \<and> svr_guard1 l)" "\<not> case2 l \<and> svr_guard2 eps l"
    | (c) "\<not> (\<not> case1 l \<and> svr_guard1 l)" "\<not> (\<not> case2 l \<and> svr_guard2 eps l)" "\<not> case3 l \<and> svr_guard3 eps l"
    | (d) "\<not> (\<not> case1 l \<and> svr_guard1 l)" "\<not> (\<not> case2 l \<and> svr_guard2 eps l)" "\<not> (\<not> case3 l \<and> svr_guard3 eps l)" "\<not> case4 l \<and> svr_guard4 l"
    | (e) "\<not> (\<not> case1 l \<and> svr_guard1 l)" "\<not> (\<not> case2 l \<and> svr_guard2 eps l)" "\<not> (\<not> case3 l \<and> svr_guard3 eps l)" "\<not> (\<not> case4 l \<and> svr_guard4 l)"
    by blast
  then show ?thesis
  proof cases
    case a
    then have "svr_dispatch Cv eps eta gamma l = svr_branch1 Cv eta gamma l"
      by (auto simp: svr_dispatch_def)
    with a svr_branch1_flags [of Cv eta gamma l] show ?thesis by (intro m) simp
  next
    case b
    then have "svr_dispatch Cv eps eta gamma l = svr_branch2 Cv eps eta gamma l"
      by (auto simp: svr_dispatch_def)
    with b svr_branch2_flags [of Cv eps eta gamma l] show ?thesis by (intro m) simp
  next
    case c
    then have "svr_dispatch Cv eps eta gamma l = svr_branch3 Cv eps eta gamma l"
      by (auto simp: svr_dispatch_def)
    with c svr_branch3_flags [of Cv eps eta gamma l] show ?thesis by (intro m) simp
  next
    case d
    then have "svr_dispatch Cv eps eta gamma l = svr_branch4 Cv eta gamma l"
      by (auto simp: svr_dispatch_def)
    with d svr_branch4_flags [of Cv eta gamma l] show ?thesis by (intro m) simp
  next
    case e
    then have "svr_dispatch Cv eps eta gamma l = l\<lparr> finished := True \<rparr>"
      by (auto simp: svr_dispatch_def)
    then show ?thesis by (intro m) simp
  qed
qed

lemma svr_loop_body_decreases:
  "\<not> finished l \<Longrightarrow> svr_loop_measure (svr_loop_body Cv eps eta gamma beta2 l) < svr_loop_measure l"
  by (simp add: svr_loop_body_def Let_def svr_dispatch_decreases)

function svr_loop ::
  "real \<Rightarrow> real \<Rightarrow> real \<Rightarrow> real \<Rightarrow> real \<Rightarrow> svr_locals \<Rightarrow> svr_locals" where
  "svr_loop Cv eps eta gamma beta2 l =
    (if finished l then l
     else svr_loop Cv eps eta gamma beta2 (svr_loop_body Cv eps eta gamma beta2 l))"
  by pat_completeness auto
termination
  by (relation "measure (\<lambda>(Cv, eps, eta, gamma, beta2, l). svr_loop_measure l)")
     (simp_all add: svr_loop_body_decreases)

declare svr_loop.simps [simp del]

text \<open>\<^verbatim>\<open># to prevent precision problems\<close>, regression: the snapping of one multiplier.\<close>

definition svr_snap :: "real \<Rightarrow> real \<Rightarrow> real" where
  "svr_snap Cv a =
    (if a > Cv - 1 / 10 ^ 10 * Cv then Cv
     else if a \<le> 1 / 10 ^ 10 * Cv then 0
     else a)"

text \<open>The body of \<^verbatim>\<open>for i in (i1, i2)\<close> that recomputes the categories of one index.\<close>

definition svr_update_sets :: "svr_params \<Rightarrow> nat \<Rightarrow> svr_state \<Rightarrow> svr_state" where
  "svr_update_sets P i s =
    (let ap = alphas_p s ! i; an = alphas_n s ! i; Cv = smo_C P in
     s\<lparr> I0 := (if (0 < ap \<and> ap < Cv) \<or> (0 < an \<and> an < Cv)
                then insert i (I0 s) else I0 s - {i}),
        I1 := (if ap = 0 \<and> an = 0 then insert i (I1 s) else I1 s - {i}),
        I2 := (if ap = 0 \<and> an = Cv then insert i (I2 s) else I2 s - {i}),
        I3 := (if ap = Cv \<and> an = 0 then insert i (I3 s) else I3 s - {i}) \<rparr>)"

text \<open>The threshold scan: the body of \<^verbatim>\<open>for i in self.I0\<close>.\<close>

definition svr_scan_free :: "svr_params \<Rightarrow> nat \<Rightarrow> svr_state \<Rightarrow> svr_state" where
  "svr_scan_free P i s =
    (let ap = alphas_p s ! i; an = alphas_n s ! i; e = errors s ! i;
         Cv = smo_C P; eps = epsilon P;
         s1 = (if 0 < ap \<and> ap < Cv \<and> e - eps > b_low s
               then s\<lparr> b_low := e - eps, b_low_idx := int i \<rparr>
               else if 0 < an \<and> an < Cv \<and> e + eps > b_low s
               then s\<lparr> b_low := e + eps, b_low_idx := int i \<rparr>
               else s)
     in if 0 < ap \<and> ap < Cv \<and> e - eps < b_up s1
        then s1\<lparr> b_up := e - eps, b_up_idx := int i \<rparr>
        else if 0 < an \<and> an < Cv \<and> e + eps < b_up s1
        then s1\<lparr> b_up := e + eps, b_up_idx := int i \<rparr>
        else s1)"

text \<open>The threshold scan: the body of \<^verbatim>\<open>for i in (i1, i2)\<close>.\<close>

definition svr_scan_bound :: "svr_params \<Rightarrow> nat \<Rightarrow> svr_state \<Rightarrow> svr_state" where
  "svr_scan_bound P i s =
    (if i \<notin> I0 s then
       (let e = errors s ! i; eps = epsilon P;
            s1 = (if i \<in> I2 s \<and> e + eps > b_low s
                  then s\<lparr> b_low := e + eps, b_low_idx := int i \<rparr>
                  else if i \<in> I1 s \<and> e - eps > b_low s
                  then s\<lparr> b_low := e - eps, b_low_idx := int i \<rparr>
                  else s)
        in if i \<in> I3 s1 \<and> e - eps < b_up s1
           then s1\<lparr> b_up := e - eps, b_up_idx := int i \<rparr>
           else if i \<in> I1 s1 \<and> e + eps < b_up s1
           then s1\<lparr> b_up := e + eps, b_up_idx := int i \<rparr>
           else s1)
     else s)"

definition svr_update_thresholds :: "svr_params \<Rightarrow> nat \<Rightarrow> nat \<Rightarrow> svr_state \<Rightarrow> svr_state" where
  "svr_update_thresholds P i1 i2 s =
    (let s0 = s\<lparr> b_up_idx := - 1, b_low_idx := - 1,
                 b_up := float_info_max, b_low := - float_info_max \<rparr>;
         s1 = fold (svr_scan_free P) (elems (length (errors s0)) (I0 s0)) s0
     in svr_scan_bound P i2 (svr_scan_bound P i1 s1))"

text \<open>
  Everything \<^verbatim>\<open>_take_step\<close> does after the loop has changed a multiplier. \<open>l\<close> holds
  the local variables at the end of the loop.
\<close>

definition svr_commit ::
  "svr_params \<Rightarrow> svr_state \<Rightarrow> nat \<Rightarrow> nat \<Rightarrow> svr_locals \<Rightarrow> error + (svr_state \<times> bool)" where
  "svr_commit P s i1 i2 l =
    (let d1 = (alphas_p s ! i1 - alphas_n s ! i1) - (alpha1_p l - alpha1_n l);
         d2 = (alphas_p s ! i2 - alphas_n s ! i2) - (alpha2_p l - alpha2_n l);
         w' = (if smo_kernel P = ''linear''
               then map_option (\<lambda>w. weight_sub w
                      (vadd (scale d1 (smo_X P ! i1)) (scale d2 (smo_X P ! i2)))) (smo_w s)
               else smo_w s);
         es = update_errors P (I0 s) i1 i2 d1 d2 (errors s);
         Cv = smo_C P;
         s1 = s\<lparr> smo_w := w', errors := es,
                 alphas_p := ((alphas_p s)[i1 := svr_snap Cv (alpha1_p l)])
                                          [i2 := svr_snap Cv (alpha2_p l)],
                 alphas_n := ((alphas_n s)[i1 := svr_snap Cv (alpha1_n l)])
                                          [i2 := svr_snap Cv (alpha2_n l)] \<rparr>;
         s2 = svr_update_sets P i2 (svr_update_sets P i1 s1);
         s3 = svr_update_thresholds P i1 i2 s2
     in if b_low_idx s3 = - 1 \<or> b_up_idx s3 = - 1 then Inl UnexpectedStatus
        else Inr (s3, True))"

text \<open>The local variables of \<^verbatim>\<open>_take_step\<close> when the loop is entered.\<close>

definition svr_locals_init :: "svr_state \<Rightarrow> nat \<Rightarrow> nat \<Rightarrow> svr_locals" where
  "svr_locals_init s i1 i2 =
    \<lparr> alpha1_p = alphas_p s ! i1, alpha1_n = alphas_n s ! i1,
      alpha2_p = alphas_p s ! i2, alpha2_n = alphas_n s ! i2,
      delta_E = errors s ! i1 - errors s ! i2,
      case1 = False, case2 = False, case3 = False, case4 = False,
      changed = False, finished = False \<rparr>"

text \<open>\<open>eta\<close>, clamped at zero, and \<open>gamma\<close>.\<close>

definition svr_eta :: "svr_params \<Rightarrow> nat \<Rightarrow> nat \<Rightarrow> real" where
  "svr_eta P i1 i2 =
    (let eta = kern P i1 i1 + kern P i2 i2 - 2 * kern P i1 i2
     in if eta < 0 then 0 else eta)"

definition svr_gamma :: "svr_state \<Rightarrow> nat \<Rightarrow> nat \<Rightarrow> real" where
  "svr_gamma s i1 i2 = alphas_p s ! i1 - alphas_n s ! i1 + alphas_p s ! i2 - alphas_n s ! i2"

text \<open>The \<^verbatim>\<open>while\<close> loop of \<^verbatim>\<open>_take_step\<close> on the pair \<open>(i1, i2)\<close> of a state.\<close>

definition svr_run_cases :: "svr_params \<Rightarrow> svr_state \<Rightarrow> nat \<Rightarrow> nat \<Rightarrow> svr_locals" where
  "svr_run_cases P s i1 i2 =
    svr_loop (smo_C P) (epsilon P) (svr_eta P i1 i2) (svr_gamma s i1 i2)
      (alphas_p s ! i2 - alphas_n s ! i2) (svr_locals_init s i1 i2)"

text \<open>\<^verbatim>\<open>SMORegression._take_step\<close>.\<close>

definition svr_take_step ::
  "svr_params \<Rightarrow> svr_state \<Rightarrow> nat \<Rightarrow> nat \<Rightarrow> error + (svr_state \<times> bool)" where
  "svr_take_step P s i1 i2 =
    (if i1 = i2 then Inr (s, False)
     else if \<not> (i1 < length (alphas_p s) \<and> i2 < length (alphas_p s)) then Inl IndexError
     else
       let l = svr_run_cases P s i1 i2
       in if \<not> changed l then Inr (s, False)
          else svr_commit P s i1 i2 l)"

subsection \<open>Regression: the working-set selector\<close>

text \<open>
  The optimality test of \<^verbatim>\<open>SMORegression._examine_example\<close>: the values of
  \<^verbatim>\<open>optimal\<close> and \<^verbatim>\<open>i1\<close> after the \<^verbatim>\<open>if\<close>/\<^verbatim>\<open>elif\<close> chain over the categories,
  or the exception of its last \<^verbatim>\<open>else\<close>.
\<close>

definition svr_choose ::
  "svr_params \<Rightarrow> svr_state \<Rightarrow> nat \<Rightarrow> real \<Rightarrow> real \<Rightarrow> real \<Rightarrow> error + (bool \<times> int)" where
  "svr_choose P s i2 a2p a2n E2 =
    (let eps = epsilon P; Cv = smo_C P; tol2 = 2 * smo_tol P in
     if i2 \<in> I0 s then
       (if 0 < a2p \<and> a2p < Cv then
          (if b_low s - (E2 - eps) > tol2 then
             Inr (False, if (E2 - eps) - b_up s > b_low s - (E2 - eps)
                         then b_up_idx s else b_low_idx s)
           else if (E2 - eps) - b_up s > tol2 then
             Inr (False, if b_low s - (E2 - eps) > (E2 - eps) - b_up s
                         then b_low_idx s else b_up_idx s)
           else Inr (True, - 1))
        else if 0 < a2n \<and> a2n < Cv then
          (if b_low s - (E2 + eps) > tol2 then
             Inr (False, if (E2 + eps) - b_up s > b_low s - (E2 + eps)
                         then b_up_idx s else b_low_idx s)
           else if (E2 + eps) - b_up s > tol2 then
             Inr (False, if b_low s - (E2 + eps) > (E2 + eps) - b_up s
                         then b_low_idx s else b_up_idx s)
           else Inr (True, - 1))
        else Inr (True, - 1))
     else if i2 \<in> I1 s then
       (if b_low s - (E2 + eps) > tol2 then
          Inr (False, if (E2 + eps) - b_up s > b_low s - (E2 + eps)
                      then b_up_idx s else b_low_idx s)
        else if (E2 - eps) - b_up s > tol2 then
          Inr (False, if b_low s - (E2 - eps) > (E2 - eps) - b_up s
                      then b_low_idx s else b_up_idx s)
        else Inr (True, - 1))
     else if i2 \<in> I2 s then
       (if (E2 + eps) - b_up s > tol2 then Inr (False, b_up_idx s) else Inr (True, - 1))
     else if i2 \<in> I3 s then
       (if b_low s - (E2 - eps) > tol2 then Inr (False, b_low_idx s) else Inr (True, - 1))
     else Inl IndexNotFound)"

text \<open>
  The first part of \<^verbatim>\<open>SMORegression._examine_example\<close>: the error \<^verbatim>\<open>E2\<close> of the
  index, read from the cache for a member of \<open>I0\<close> and otherwise computed, stored and
  used to tighten a threshold.
\<close>

definition svr_refresh :: "svr_params \<Rightarrow> svr_state \<Rightarrow> nat \<Rightarrow> svr_state \<times> real" where
  "svr_refresh P s i2 =
    (if i2 \<in> I0 s then (s, errors s ! i2)
     else
       let eps = epsilon P;
           E2 = smo_y P ! i2 - dot (map2 (-) (alphas_p s) (alphas_n s)) (smo_K P ! i2);
           s0 = s\<lparr> errors := (errors s)[i2 := E2] \<rparr>
       in ((if i2 \<in> I1 s0 then
              (if E2 + eps < b_up s0
               then s0\<lparr> b_up := E2 + eps, b_up_idx := int i2 \<rparr>
               else if E2 - eps > b_low s0
               then s0\<lparr> b_low := E2 - eps, b_low_idx := int i2 \<rparr>
               else s0)
            else if i2 \<in> I2 s0 \<and> E2 + eps > b_low s0
            then s0\<lparr> b_low := E2 + eps, b_low_idx := int i2 \<rparr>
            else if i2 \<in> I3 s0 \<and> E2 - eps < b_up s0
            then s0\<lparr> b_up := E2 - eps, b_up_idx := int i2 \<rparr>
            else s0), E2))"

text \<open>\<^verbatim>\<open>SMORegression._examine_example\<close>.\<close>

definition svr_examine_example ::
  "svr_params \<Rightarrow> svr_state \<Rightarrow> nat \<Rightarrow> error + (svr_state \<times> bool)" where
  "svr_examine_example P s i2 =
    (if \<not> i2 < length (alphas_p s) then Inl IndexError
     else
       let a2p = alphas_p s ! i2; a2n = alphas_n s ! i2;
           (s1, E2) = svr_refresh P s i2
       in case svr_choose P s1 i2 a2p a2n E2 of
            Inl e \<Rightarrow> Inl e
          | Inr (optimal, i1) \<Rightarrow>
              if optimal then Inr (s1, False)
              else if i1 < 0 then Inl NegativeIndex
              else svr_take_step P s1 (nat i1) i2)"

subsection \<open>Regression: the outer driver\<close>

fun svr_sweep_all ::
  "svr_params \<Rightarrow> nat list \<Rightarrow> svr_state \<Rightarrow> nat \<Rightarrow> error + (svr_state \<times> nat)" where
  "svr_sweep_all P [] s num_changed = Inr (s, num_changed)"
| "svr_sweep_all P (i # is) s num_changed =
    (case svr_examine_example P s i of
       Inl e \<Rightarrow> Inl e
     | Inr (s', ch) \<Rightarrow> svr_sweep_all P is s' (num_changed + (if ch then 1 else 0)))"

fun svr_sweep_active ::
  "svr_params \<Rightarrow> nat list \<Rightarrow> svr_state \<Rightarrow> nat \<Rightarrow> error + (svr_state \<times> nat)" where
  "svr_sweep_active P [] s num_changed = Inr (s, num_changed)"
| "svr_sweep_active P (i # is) s num_changed =
    (if (0 < alphas_p s ! i \<and> alphas_p s ! i < smo_C P) \<or>
        (0 < alphas_n s ! i \<and> alphas_n s ! i < smo_C P) then
       (case svr_examine_example P s i of
          Inl e \<Rightarrow> Inl e
        | Inr (s', ch) \<Rightarrow>
            if b_up s' > b_low s' - 2 * smo_tol P then Inr (s', 0)
            else svr_sweep_active P is s' (num_changed + (if ch then 1 else 0)))
     else svr_sweep_active P is s num_changed)"

definition svr_smo_body ::
  "svr_params \<Rightarrow> svr_state \<Rightarrow> bool \<Rightarrow> error + (svr_state \<times> nat \<times> bool)" where
  "svr_smo_body P s examine_all =
    (case (if examine_all then svr_sweep_all P [0..<length (smo_X P)] s 0
           else svr_sweep_active P [0..<length (smo_X P)] s 0) of
       Inl e \<Rightarrow> Inl e
     | Inr (s', num_changed) \<Rightarrow>
         Inr (s', num_changed,
              (if examine_all then False
               else if num_changed = 0 then True
               else examine_all)))"

partial_function (option) svr_smo_loop ::
  "svr_params \<Rightarrow> svr_state \<Rightarrow> nat \<Rightarrow> bool \<Rightarrow> (error + svr_state) option" where
  "svr_smo_loop P s num_changed examine_all =
    (if num_changed > 0 \<or> examine_all then
       (case svr_smo_body P s examine_all of
          Inl e \<Rightarrow> Some (Inl e)
        | Inr (s', num_changed', examine_all') \<Rightarrow> svr_smo_loop P s' num_changed' examine_all')
     else Some (Inr s))"

declare svr_smo_loop.simps [code]

text \<open>\<^verbatim>\<open>SMORegression.smo\<close>.\<close>

definition svr_smo :: "svr_params \<Rightarrow> svr_state \<Rightarrow> (error + svr_state) option" where
  "svr_smo P s =
    (case svr_smo_loop P s 0 True of
       None \<Rightarrow> None
     | Some (Inl e) \<Rightarrow> Some (Inl e)
     | Some (Inr s') \<Rightarrow> Some (Inr (s'\<lparr> smo_b := (b_low s' + b_up s') / 2 \<rparr>)))"

definition svr_train :: "svr_params \<Rightarrow> (error + svr_state) option" where
  "svr_train P = (case svr_init P of Inl e \<Rightarrow> Some (Inl e) | Inr s \<Rightarrow> svr_smo P s)"

section \<open>Derived notions and concrete inputs\<close>

text \<open>
  The value \<^verbatim>\<open>a2\<close> that \<^verbatim>\<open>SMOClassifier._take_step\<close> computes for a pair of
  distinct indices before it tests whether the change is negligible.
\<close>

definition svc_candidate :: "params \<Rightarrow> svc_state \<Rightarrow> nat \<Rightarrow> nat \<Rightarrow> real" where
  "svc_candidate P s i1 i2 =
    (let alpha1 = alphas s ! i1; y1 = smo_y P ! i1; E1 = errors s ! i1;
         alpha2 = alphas s ! i2; y2 = smo_y P ! i2; E2 = errors s ! i2;
         (L, H) = svc_bounds (smo_C P) y1 y2 alpha1 alpha2;
         eta = kern P i1 i1 + kern P i2 i2 - 2 * kern P i1 i2
     in svc_new_alpha2 eta y2 E1 E2 alpha2 L H)"

text \<open>
  Two points with a linear kernel, one of each class; the same two points with
  one class only; and two coincident points of opposite classes, for which
  \<open>eta = 0\<close>.
\<close>

definition P_two :: params where
  "P_two = \<lparr> smo_X = [[1, 0], [0, 1]], smo_y = [1, - 1], smo_K = [[1, 0], [0, 1]],
             smo_kernel = ''linear'', smo_C = 1, smo_tol = 1 / 1000 \<rparr>"

definition P_one :: params where
  "P_one = \<lparr> smo_X = [[1, 0], [0, 1]], smo_y = [- 1, - 1], smo_K = [[1, 0], [0, 1]],
             smo_kernel = ''linear'', smo_C = 1, smo_tol = 1 / 1000 \<rparr>"

definition P_flat :: params where
  "P_flat = \<lparr> smo_X = [[1], [1]], smo_y = [1, - 1], smo_K = [[1, 1], [1, 1]],
              smo_kernel = ''linear'', smo_C = 1, smo_tol = 1 / 1000 \<rparr>"

definition s_flat :: svc_state where
  "s_flat = \<lparr> errors = [0, 0], smo_w = Some (Vector [0]), smo_b = 0, I0 = {0, 1},
              I1 = {}, I2 = {}, I3 = {}, b_up = 0, b_low = 0, b_up_idx = 0,
              b_low_idx = 0, alphas = [1 / 2, 1 / 2], I4 = {} \<rparr>"

text \<open>
  A classification problem on the line, the points \<open>2\<close> and \<open>0\<close> with labels
  \<open>+1\<close> and \<open>-1\<close>; its state after construction and after the first full sweep.
  A regression problem on the line, the points \<open>0\<close> and \<open>1\<close> with their own
  values as targets; its state after construction and after the first full sweep.
\<close>

definition P_line :: params where
  "P_line = \<lparr> smo_X = [[2], [0]], smo_y = [1, - 1], smo_K = [[4, 0], [0, 0]],
              smo_kernel = ''linear'', smo_C = 1, smo_tol = 1 / 1000 \<rparr>"

definition s_line0 :: svc_state where
  "s_line0 = \<lparr> errors = [- 1, 1], smo_w = Some (Scalar 0), smo_b = 0, I0 = {},
               I1 = {0}, I2 = {}, I3 = {}, b_up = - 1, b_low = 1, b_up_idx = 0,
               b_low_idx = 1, alphas = [0, 0], I4 = {1} \<rparr>"

definition s_line1 :: svc_state where
  "s_line1 = \<lparr> errors = [1, 1], smo_w = Some (Vector [1]), smo_b = 0, I0 = {0, 1},
               I1 = {}, I2 = {}, I3 = {}, b_up = 1, b_low = 1, b_up_idx = 0,
               b_low_idx = 0, alphas = [1 / 2, 1 / 2], I4 = {} \<rparr>"

definition Q_line :: svr_params where
  "Q_line = \<lparr> smo_X = [[0], [1]], smo_y = [0, 1], smo_K = [[0, 0], [0, 1]],
              smo_kernel = ''linear'', smo_C = 1, smo_tol = 1 / 1000, epsilon = 1 / 10 \<rparr>"

definition t_line0 :: svr_state where
  "t_line0 = \<lparr> errors = [0, 0], smo_w = Some (Scalar 0), smo_b = 0, I0 = {},
               I1 = {0, 1}, I2 = {}, I3 = {}, b_up = 1 / 10, b_low = - (1 / 10),
               b_up_idx = 0, b_low_idx = 0, alphas_p = [0, 0], alphas_n = [0, 0] \<rparr>"

definition t_line1 :: svr_state where
  "t_line1 = \<lparr> errors = [0, 1 / 5], smo_w = Some (Vector [4 / 5]), smo_b = 0,
               I0 = {0, 1}, I1 = {}, I2 = {}, I3 = {}, b_up = 1 / 10,
               b_low = 1 / 10, b_up_idx = 0, b_low_idx = 0, alphas_p = [0, 4 / 5],
               alphas_n = [4 / 5, 0] \<rparr>"

section \<open>The concrete inputs, evaluated\<close>



lemma svc_line_full: "svc_sweep_all P_line [0..<2] s_line0 0 = Inr (s_line1, 1)"
  by code_simp

lemma svc_line_active: "svc_sweep_active P_line [0..<2] s_line1 0 = Inr (s_line1, 0)"
  by code_simp

lemma svc_line_full2: "svc_sweep_all P_line [0..<2] s_line1 0 = Inr (s_line1, 0)"
  by code_simp

lemma P_line_length: "length (smo_X P_line) = 2"
  by (simp add: P_line_def)

lemma Q_line_length: "length (smo_X Q_line) = 2"
  by (simp add: Q_line_def)

lemma svr_line_full: "svr_sweep_all Q_line [0..<2] t_line0 0 = Inr (t_line1, 1)"
  by code_simp

lemma svr_line_active: "svr_sweep_active Q_line [0..<2] t_line1 0 = Inr (t_line1, 0)"
  by code_simp

lemma svr_line_full2: "svr_sweep_all Q_line [0..<2] t_line1 0 = Inr (t_line1, 0)"
  by code_simp


section \<open>Construction of the classifier\<close>

lemma find_upt_None:
  "List.find p [0..<n] = None \<longleftrightarrow> (\<forall>i<n. \<not> p i)"
  by (auto simp: find_None_iff)

lemma find_upt_Some:
  "List.find p [0..<n] = Some u \<longleftrightarrow> u < n \<and> p u \<and> (\<forall>j<u. \<not> p j)"
  by (auto simp: find_Some_iff)

lemma svc_init_Inr_iff:
  "(\<exists>s. svc_init P = Inr s) \<longleftrightarrow>
     length (smo_X P) \<le> length (smo_y P) \<and>
     (\<exists>i<length (smo_X P). smo_y P ! i = 1) \<and> (\<exists>i<length (smo_X P). smo_y P ! i = - 1)"
  by (auto simp: svc_init_def Let_def find_upt_None find_upt_Some split: option.splits)

lemma svc_init_indices:
  assumes "svc_init P = Inr s"
  shows "\<exists>u l. b_up_idx s = int u \<and> b_low_idx s = int l \<and>
           u < length (smo_X P) \<and> smo_y P ! u = 1 \<and> (\<forall>j<u. smo_y P ! j \<noteq> 1) \<and>
           l < length (smo_X P) \<and> smo_y P ! l = - 1 \<and> (\<forall>j<l. smo_y P ! j \<noteq> - 1)"
  using assms
  by (auto simp: svc_init_def Let_def find_upt_Some split: option.splits if_splits)

lemma svc_init_StopIteration:
  assumes "length (smo_X P) \<le> length (smo_y P)"
    and "\<not> ((\<exists>i<length (smo_X P). smo_y P ! i = 1) \<and> (\<exists>i<length (smo_X P). smo_y P ! i = - 1))"
  shows "svc_init P = Inl StopIteration"
  using assms
  by (auto simp: svc_init_def Let_def find_upt_None find_upt_Some split: option.splits)

text \<open>
  Claim C10. Constructing the classification engine succeeds exactly when the label
  vector holds a \<open>+1\<close> and a \<open>-1\<close>. On success \<open>b_up_idx\<close> is the first index
  with label \<open>+1\<close> and \<open>b_low_idx\<close> the first index with label \<open>-1\<close>. When one of
  the two labels is missing, construction raises \<^verbatim>\<open>StopIteration\<close>, so no training
  step runs.
\<close>

theorem svc_init_needs_both_labels:
  assumes "length (smo_y P) = length (smo_X P)"
  shows "((\<exists>s. svc_init P = Inr s) \<longleftrightarrow> 1 \<in> set (smo_y P) \<and> - 1 \<in> set (smo_y P)) \<and>
         (\<not> (1 \<in> set (smo_y P) \<and> - 1 \<in> set (smo_y P)) \<longrightarrow> svc_init P = Inl StopIteration) \<and>
         (\<forall>s. svc_init P = Inr s \<longrightarrow>
            (\<exists>u l. b_up_idx s = int u \<and> b_low_idx s = int l \<and>
               u < length (smo_y P) \<and> smo_y P ! u = 1 \<and> (\<forall>j<u. smo_y P ! j \<noteq> 1) \<and>
               l < length (smo_y P) \<and> smo_y P ! l = - 1 \<and> (\<forall>j<l. smo_y P ! j \<noteq> - 1)))"
proof -
  have set_iff: "v \<in> set (smo_y P) \<longleftrightarrow> (\<exists>i<length (smo_X P). smo_y P ! i = v)" for v
    using assms by (auto simp: in_set_conv_nth)
  have a: "(\<exists>s. svc_init P = Inr s) \<longleftrightarrow> 1 \<in> set (smo_y P) \<and> - 1 \<in> set (smo_y P)"
    using assms by (simp add: svc_init_Inr_iff set_iff)
  have b: "\<not> (1 \<in> set (smo_y P) \<and> - 1 \<in> set (smo_y P)) \<longrightarrow> svc_init P = Inl StopIteration"
    using assms svc_init_StopIteration [of P] by (simp add: set_iff)
  have c: "\<forall>s. svc_init P = Inr s \<longrightarrow>
            (\<exists>u l. b_up_idx s = int u \<and> b_low_idx s = int l \<and>
               u < length (smo_y P) \<and> smo_y P ! u = 1 \<and> (\<forall>j<u. smo_y P ! j \<noteq> 1) \<and>
               l < length (smo_y P) \<and> smo_y P ! l = - 1 \<and> (\<forall>j<l. smo_y P ! j \<noteq> - 1))"
    using svc_init_indices [of P] assms by simp
  from a b c show ?thesis by blast
qed

theorem svc_init_needs_both_labels_witness:
  "(\<exists>s. svc_init P_two = Inr s \<and> b_up_idx s = 0 \<and> b_low_idx s = 1) \<and>
   svc_init P_one = Inl StopIteration"
proof -
  have two: "length (smo_y P_two) = length (smo_X P_two)" "smo_y P_two = [1, - 1]"
    by (simp_all add: P_two_def)
  have one: "length (smo_y P_one) = length (smo_X P_one)" "smo_y P_one = [- 1, - 1]"
    by (simp_all add: P_one_def)
  have idx: "b_up_idx s = 0 \<and> b_low_idx s = 1" if "svc_init P_two = Inr s" for s
  proof -
    from svc_init_needs_both_labels [OF two(1)] that
    obtain u l where ul: "b_up_idx s = int u" "b_low_idx s = int l" "u < 2" "l < 2"
      "smo_y P_two ! u = 1" "smo_y P_two ! l = - 1"
      by (auto simp: two(2))
    from ul(3,5) have "u = 0" by (cases u) (auto simp: two(2))
    moreover from ul(4,6) have "l = 1" by (cases l) (auto simp: two(2))
    ultimately show ?thesis using ul by simp
  qed
  from svc_init_needs_both_labels [OF two(1)] obtain s where "svc_init P_two = Inr s"
    by (auto simp: two(2))
  with idx have "\<exists>s. svc_init P_two = Inr s \<and> b_up_idx s = 0 \<and> b_low_idx s = 1"
    by blast
  moreover from svc_init_needs_both_labels [OF one(1)] have "svc_init P_one = Inl StopIteration"
    by (simp add: one(2))
  ultimately show ?thesis by blast
qed

section \<open>The classification pair update\<close>

lemma svc_take_step_unfold:
  assumes "i1 \<noteq> i2" "i1 < length (alphas s)" "i2 < length (alphas s)"
  shows "svc_take_step P s i1 i2 =
    (if fst (svc_bounds (smo_C P) (smo_y P ! i1) (smo_y P ! i2) (alphas s ! i1) (alphas s ! i2))
        = snd (svc_bounds (smo_C P) (smo_y P ! i1) (smo_y P ! i2) (alphas s ! i1) (alphas s ! i2))
     then Inr (s, False)
     else if \<bar>svc_candidate P s i1 i2 - alphas s ! i2\<bar>
               < 1 / 10 ^ 12 * (svc_candidate P s i1 i2 + alphas s ! i2 + 1 / 10 ^ 12)
     then Inr (s, False)
     else svc_commit P s i1 i2 (svc_candidate P s i1 i2))"
  using assms
  by (simp add: svc_take_step_def svc_candidate_def Let_def split_beta)

lemma svc_commit_True: "svc_commit P s i1 i2 a2 = Inr (s', ch) \<Longrightarrow> ch"
  by (auto simp: svc_commit_def Let_def split: if_splits)

lemma svc_take_step_False:
  "svc_take_step P s i1 i2 = Inr (s', False) \<Longrightarrow> s' = s"
  by (auto simp: svc_take_step_def Let_def split_beta split: if_splits dest: svc_commit_True)

text \<open>
  Claim C4. In the classification \<^verbatim>\<open>_take_step\<close>, when the computed change of
  \<open>alpha2\<close> is negligible, that is
  \<open>|a2 - alpha2| < 1e-12 * (a2 + alpha2 + 1e-12)\<close>, the call returns false and
  the state it returns is the state it was given: multipliers, error cache, categories,
  thresholds, bias and weight vector are all unchanged.
\<close>

theorem svc_take_step_negligible:
  assumes "i1 < length (alphas s)" "i2 < length (alphas s)"
    and "\<bar>svc_candidate P s i1 i2 - alphas s ! i2\<bar>
           < 1 / 10 ^ 12 * (svc_candidate P s i1 i2 + alphas s ! i2 + 1 / 10 ^ 12)"
  shows "svc_take_step P s i1 i2 = Inr (s, False)"
proof (cases "i1 = i2")
  case True
  then show ?thesis by (simp add: svc_take_step_def)
next
  case False
  with assms show ?thesis by (simp add: svc_take_step_unfold)
qed

theorem svc_take_step_negligible_witness:
  "(0::nat) < length (alphas s_flat) \<and> (1::nat) < length (alphas s_flat) \<and>
   \<bar>svc_candidate P_flat s_flat 0 1 - alphas s_flat ! 1\<bar>
      < 1 / 10 ^ 12 * (svc_candidate P_flat s_flat 0 1 + alphas s_flat ! 1 + 1 / 10 ^ 12) \<and>
   svc_take_step P_flat s_flat 0 1 = Inr (s_flat, False)"
proof -
  have c: "svc_candidate P_flat s_flat 0 (Suc 0) = 1 / 2"
    by (simp add: svc_candidate_def P_flat_def s_flat_def svc_bounds_def svc_new_alpha2_def
        kern_def Let_def)
  have a: "alphas s_flat = [1 / 2, 1 / 2]"
    by (simp add: s_flat_def)
  show ?thesis
    using svc_take_step_negligible [of 0 s_flat 1 P_flat]
    by (simp add: c a)
qed

section \<open>The outer driver\<close>

lemma svc_smo_loop_full:
  "svc_smo_loop P s num_changed True =
     (case svc_sweep_all P [0..<length (smo_X P)] s 0 of
        Inl e \<Rightarrow> Some (Inl e)
      | Inr (s', num_changed') \<Rightarrow> svc_smo_loop P s' num_changed' False)"
  by (subst svc_smo_loop.simps) (simp add: svc_smo_body_def split: sum.splits)

lemma svc_smo_loop_active:
  "0 < num_changed \<Longrightarrow> svc_smo_loop P s num_changed False =
     (case svc_sweep_active P [0..<length (smo_X P)] s 0 of
        Inl e \<Rightarrow> Some (Inl e)
      | Inr (s', num_changed') \<Rightarrow> svc_smo_loop P s' num_changed' (num_changed' = 0))"
  by (subst svc_smo_loop.simps) (simp add: svc_smo_body_def split: sum.splits)

lemma svc_smo_loop_stop: "svc_smo_loop P s 0 False = Some (Inr s)"
  by (subst svc_smo_loop.simps) simp

lemma svr_smo_loop_full:
  "svr_smo_loop P s num_changed True =
     (case svr_sweep_all P [0..<length (smo_X P)] s 0 of
        Inl e \<Rightarrow> Some (Inl e)
      | Inr (s', num_changed') \<Rightarrow> svr_smo_loop P s' num_changed' False)"
  by (subst svr_smo_loop.simps) (simp add: svr_smo_body_def split: sum.splits)

lemma svr_smo_loop_active:
  "0 < num_changed \<Longrightarrow> svr_smo_loop P s num_changed False =
     (case svr_sweep_active P [0..<length (smo_X P)] s 0 of
        Inl e \<Rightarrow> Some (Inl e)
      | Inr (s', num_changed') \<Rightarrow> svr_smo_loop P s' num_changed' (num_changed' = 0))"
  by (subst svr_smo_loop.simps) (simp add: svr_smo_body_def split: sum.splits)

lemma svr_smo_loop_stop: "svr_smo_loop P s 0 False = Some (Inr s)"
  by (subst svr_smo_loop.simps) simp

lemma svc_line_loop: "svc_smo_loop P_line s_line0 0 True = Some (Inr s_line1)"
  by (simp add: svc_smo_loop_full svc_smo_loop_active svc_smo_loop_stop P_line_length
      svc_line_full svc_line_active svc_line_full2)

lemma svr_line_loop: "svr_smo_loop Q_line t_line0 0 True = Some (Inr t_line1)"
  by (simp add: svr_smo_loop_full svr_smo_loop_active svr_smo_loop_stop Q_line_length
      svr_line_full svr_line_active svr_line_full2)




text \<open>
  Claim C5. When the driver returns, the state it returns is the final state of the loop
  with the bias set from the final thresholds: \<open>-(b_low + b_up) / 2\<close> in
  classification, \<open>(b_low + b_up) / 2\<close> in regression.
\<close>

theorem smo_bias_midpoint:
  "(svc_smo P s = Some (Inr s') \<longrightarrow>
      (\<exists>s''. svc_smo_loop P s 0 True = Some (Inr s'') \<and>
             s' = s''\<lparr> smo_b := - (b_low s'' + b_up s'') / 2 \<rparr>) \<and>
      smo_b s' = - (b_low s' + b_up s') / 2) \<and>
   (svr_smo Q t = Some (Inr t') \<longrightarrow>
      (\<exists>t''. svr_smo_loop Q t 0 True = Some (Inr t'') \<and>
             t' = t''\<lparr> smo_b := (b_low t'' + b_up t'') / 2 \<rparr>) \<and>
      smo_b t' = (b_low t' + b_up t') / 2)"
  by (auto simp: svc_smo_def svr_smo_def split: option.splits sum.splits)

lemma svc_line_smo: "svc_smo P_line s_line0 = Some (Inr (s_line1\<lparr> smo_b := - 1 \<rparr>))"
  by (simp add: svc_smo_def svc_line_loop s_line1_def)

lemma svr_line_smo: "svr_smo Q_line t_line0 = Some (Inr (t_line1\<lparr> smo_b := 1 / 10 \<rparr>))"
  by (simp add: svr_smo_def svr_line_loop t_line1_def)

theorem smo_bias_midpoint_witness:
  "svc_smo P_line s_line0 = Some (Inr (s_line1\<lparr> smo_b := - 1 \<rparr>)) \<and>
   smo_b (s_line1\<lparr> smo_b := - 1 \<rparr>) = - (b_low s_line1 + b_up s_line1) / 2 \<and>
   svr_smo Q_line t_line0 = Some (Inr (t_line1\<lparr> smo_b := 1 / 10 \<rparr>)) \<and>
   smo_b (t_line1\<lparr> smo_b := 1 / 10 \<rparr>) = (b_low t_line1 + b_up t_line1) / 2"
  using smo_bias_midpoint [of P_line s_line0 "s_line1\<lparr> smo_b := - 1 \<rparr>"
      Q_line t_line0 "t_line1\<lparr> smo_b := 1 / 10 \<rparr>"]
  by (simp add: svc_line_smo svr_line_smo)


end
